theory Spec2Isabelle
  imports Main
begin

section \<open>Values exchanged with the remote service\<close>

text \<open>
  The server is a bridge between tool calls and the Tessie REST API. Everything it does
  beyond computing values is an effect on the outside world: reading the process
  environment, reading the wall clock, sleeping, and issuing HTTP requests. The model
  threads a \<open>world\<close> through every function of \<open>src/index.ts\<close> and records each effect
  in a trace, so that statements about which request is sent when become statements
  about lists of events.

  What the model takes from the libraries rather than from the source:
  \<^item> \<open>new URL(BASE_URL + path)\<close> is the base joined with the path. Every path the source
    passes begins with a slash, for which the constructor does not throw; the path is
    kept as text, and the query string is the list \<open>searchParams\<close> holds.
  \<^item> \<open>fetch\<close> settles with what the network answers: the i-th request of a run meets the
    i-th answer, which is a response or a rejection, and takes the time that answer
    takes. Parsing a body is the response's own \<open>json()\<close>.
  \<^item> \<open>setTimeout\<close> fires on time: a pause of \<open>ms\<close> moves the clock by \<open>ms\<close>.
  \<^item> The schema library has checked the types of the arguments; the transform of
    \<open>VinSchema\<close> is modelled, since it is code of the source.
  The vehicle commands other than \<open>lock\<close> and \<open>unlock\<close> are not written out: each of
  them is one more call of \<open>command\<close>, with its own path and parameters.
\<close>

datatype json =
    JNull
  | JBool bool
  | JNum int
  | JStr string
  | JArr "json list"
  | JObj "(string \<times> json) list"

text \<open>
  The values of \<open>Record<string, string | number | boolean | undefined>\<close>: an entry is
  \<open>None\<close> when its value is \<open>undefined\<close>. Numbers are the integral ones.
\<close>

datatype param_value = PStr string | PNum int | PBool bool

type_synonym params = "(string \<times> param_value option) list"

datatype http_method = GET | POST

record request =
  req_method :: http_method
  req_url :: string
  req_query :: "(string \<times> string) list"
  req_headers :: "(string \<times> string) list"
  req_body :: "json option"

text \<open>
  What \<open>node-fetch\<close> hands back. \<open>resp_text\<close> is the raw body, \<open>resp_json\<close> what
  \<open>response.json()\<close> makes of it: \<open>Inl m\<close> when parsing throws with message \<open>m\<close>.
\<close>

record response =
  resp_status :: nat
  resp_content_type :: "string option"
  resp_text :: string
  resp_json :: "string + json"

datatype fetch_outcome = Responds response | Rejects string

datatype error = Error string | FetchError string | SyntaxError string

fun message :: "error \<Rightarrow> string" where
  "message (Error m) = m"
| "message (FetchError m) = m"
| "message (SyntaxError m) = m"

datatype event = Fetch request fetch_outcome | Sleep nat

text \<open>
  The world: the environment variables the source reads, the wall clock in milliseconds
  (\<open>Date.now()\<close>), what the network will answer to the successive requests (each answer
  with the time it takes to arrive), and the effects performed so far.
\<close>

record world =
  TESSIE_API_TOKEN :: "string option"
  TESSIE_DEFAULT_VIN :: "string option"
  TESSIE_DISTANCE_FORMAT :: "string option"
  TESSIE_TEMP_FORMAT :: "string option"
  TESSIE_PRESSURE_FORMAT :: "string option"
  now :: nat
  network :: "nat \<Rightarrow> nat \<times> fetch_outcome"
  trace :: "event list"

definition fetch :: "request \<Rightarrow> world \<Rightarrow> fetch_outcome \<times> world" where
  "fetch req w =
     (let (latency, out) = network w 0
      in (out, w\<lparr>now := now w + latency,
                 network := (\<lambda>n. network w (Suc n)),
                 trace := trace w @ [Fetch req out]\<rparr>))"

definition sleep :: "nat \<Rightarrow> world \<Rightarrow> world" where
  "sleep ms w = w\<lparr>now := now w + ms, trace := trace w @ [Sleep ms]\<rparr>"

section \<open>JavaScript primitives the source relies on\<close>

definition digit_char :: "nat \<Rightarrow> char" where
  "digit_char d = ''0123456789'' ! d"

fun String_nat :: "nat \<Rightarrow> string" where
  "String_nat n =
     (if n < 10 then [digit_char n] else String_nat (n div 10) @ [digit_char (n mod 10)])"

definition String_int :: "int \<Rightarrow> string" where
  "String_int i = (if i < 0 then CHR ''-'' # String_nat (nat (- i)) else String_nat (nat i))"

text \<open>\<open>String(value)\<close> on the values a parameter can hold.\<close>

fun String :: "param_value \<Rightarrow> string" where
  "String (PStr s) = s"
| "String (PNum i) = String_int i"
| "String (PBool b) = (if b then ''true'' else ''false'')"

fun starts_with :: "string \<Rightarrow> string \<Rightarrow> bool" where
  "starts_with s [] = True"
| "starts_with [] (c # cs) = False"
| "starts_with (d # ds) (c # cs) = (d = c \<and> starts_with ds cs)"

fun str_includes :: "string \<Rightarrow> string \<Rightarrow> bool" where
  "str_includes [] sub = (sub = [])"
| "str_includes (c # cs) sub = (starts_with (c # cs) sub \<or> str_includes cs sub)"

text \<open>\<open>URLSearchParams.set\<close>: overwrite the first entry of that name and drop the others,
  or append when there is none.\<close>

fun searchParams_set :: "string \<Rightarrow> string \<Rightarrow> (string \<times> string) list \<Rightarrow> (string \<times> string) list" where
  "searchParams_set k v [] = [(k, v)]"
| "searchParams_set k v (p # ps) =
     (if fst p = k then (k, v) # filter (\<lambda>q. fst q \<noteq> k) ps
      else p # searchParams_set k v ps)"

text \<open>\<open>response.ok\<close>: the status is in the range 200-299.\<close>

definition ok :: "response \<Rightarrow> bool" where
  "ok r = (200 \<le> resp_status r \<and> resp_status r \<le> 299)"

section \<open>Configuration\<close>

definition BASE_URL :: string where
  "BASE_URL = ''https://api.tessie.com''"

definition token_required :: string where
  "token_required = ''TESSIE_API_TOKEN environment variable is required. '' @
                    ''Get your token at https://dash.tessie.com/settings/api''"

definition getToken :: "world \<Rightarrow> error + string" where
  "getToken w =
     (case TESSIE_API_TOKEN w of
        None \<Rightarrow> Inl (Error token_required)
      | Some token \<Rightarrow> if token = [] then Inl (Error token_required) else Inr token)"

definition getDefaultVin :: "world \<Rightarrow> string option" where
  "getDefaultVin w = TESSIE_DEFAULT_VIN w"




section \<open>HTTP helpers\<close>

text \<open>The loop over \<open>Object.entries(params)\<close>: an \<open>undefined\<close> value is skipped.\<close>

fun append_params :: "params \<Rightarrow> (string \<times> string) list \<Rightarrow> (string \<times> string) list" where
  "append_params [] q = q"
| "append_params ((key, None) # rest) q = append_params rest q"
| "append_params ((key, Some v) # rest) q = append_params rest (searchParams_set key (String v) q)"

definition api_error :: "nat \<Rightarrow> string \<Rightarrow> string" where
  "api_error st txt = ''Tessie API error '' @ String_nat st @ '': '' @ txt"

text \<open>What \<open>tessieRequest\<close> does with the settled \<open>fetch\<close>: a rejected fetch is rethrown,
  a response that is not \<open>ok\<close> becomes an error carrying status and raw text, a JSON
  response is parsed, anything else is wrapped under \<open>raw\<close>.\<close>

definition read_response :: "fetch_outcome \<Rightarrow> error + json" where
  "read_response out =
     (case out of
        Rejects m \<Rightarrow> Inl (FetchError m)
      | Responds r \<Rightarrow>
          if \<not> ok r then Inl (Error (api_error (resp_status r) (resp_text r)))
          else
            let contentType = (case resp_content_type r of None \<Rightarrow> [] | Some c \<Rightarrow> c)
            in if str_includes contentType ''application/json''
               then (case resp_json r of Inl m \<Rightarrow> Inl (SyntaxError m) | Inr v \<Rightarrow> Inr v)
               else Inr (JObj [(''raw'', JStr (resp_text r))]))"

text \<open>The request \<open>tessieRequest\<close> hands to \<open>fetch\<close>: the URL with its query string, the
  headers, and for a \<open>POST\<close> with a body the JSON content type and the body (which
  \<open>JSON.stringify\<close> writes out; the model keeps the value).\<close>

definition build_request ::
    "http_method \<Rightarrow> string \<Rightarrow> params option \<Rightarrow> json option \<Rightarrow> string \<Rightarrow> request" where
  "build_request method path params body token =
     (let headers = [(''Authorization'', ''Bearer '' @ token), (''Accept'', ''application/json'')];
          query = (case params of None \<Rightarrow> [] | Some ps \<Rightarrow> append_params ps []);
          with_body = (body \<noteq> None \<and> method = POST)
      in \<lparr>req_method = method,
          req_url = BASE_URL @ path,
          req_query = query,
          req_headers = (if with_body then headers @ [(''Content-Type'', ''application/json'')]
                         else headers),
          req_body = (if with_body then body else None)\<rparr>)"

definition tessieRequest ::
    "http_method \<Rightarrow> string \<Rightarrow> params option \<Rightarrow> json option \<Rightarrow> world \<Rightarrow> (error + json) \<times> world" where
  "tessieRequest method path params body w =
     (case getToken w of
        Inl e \<Rightarrow> (Inl e, w)
      | Inr token \<Rightarrow>
          (let (out, w') = fetch (build_request method path params body token) w
           in (read_response out, w')))"

definition get :: "string \<Rightarrow> params option \<Rightarrow> world \<Rightarrow> (error + json) \<times> world" where
  "get path params w = tessieRequest GET path params None w"

definition post :: "string \<Rightarrow> params option \<Rightarrow> json option \<Rightarrow> world \<Rightarrow> (error + json) \<times> world" where
  "post path params body w = tessieRequest POST path params body w"

section \<open>Auto-wake helpers\<close>

definition WAKE_POLL_INTERVAL_MS :: nat where
  "WAKE_POLL_INTERVAL_MS = 3000"

definition WAKE_TIMEOUT_MS :: nat where
  "WAKE_TIMEOUT_MS = 90000"

text \<open>\<open>data?.status === "awake"\<close>: only an object has a \<open>status\<close> property, and where
  a key is written twice the parser keeps the last.\<close>

fun status_is_awake :: "json \<Rightarrow> bool" where
  "status_is_awake (JObj kvs) = (map_of (rev kvs) ''status'' = Some (JStr ''awake''))"
| "status_is_awake _ = False"

definition isVehicleAwake :: "string \<Rightarrow> world \<Rightarrow> (error + bool) \<times> world" where
  "isVehicleAwake vin w =
     (case get (''/'' @ vin @ ''/status'') None w of
        (Inl e, w') \<Rightarrow> (Inl e, w')
      | (Inr data, w') \<Rightarrow> (Inr (status_is_awake data), w'))"

definition wake_timeout :: "string \<Rightarrow> string" where
  "wake_timeout vin =
     ''Vehicle '' @ vin @ '' did not wake within '' @ String_nat (WAKE_TIMEOUT_MS div 1000) @ ''s. '' @
     ''Try calling wake_vehicle manually and retrying.''"

text \<open>The poll loop of \<open>ensureAwake\<close>: \<open>while (Date.now() < deadline)\<close>, sleep one
  interval, check again. A failing check leaves the loop with its error.\<close>

function poll :: "string \<Rightarrow> nat \<Rightarrow> world \<Rightarrow> (error + unit) \<times> world" where
  "poll vin deadline w =
     (if now w < deadline then
        (case isVehicleAwake vin (sleep WAKE_POLL_INTERVAL_MS w) of
           (Inl e, w') \<Rightarrow> (Inl e, w')
         | (Inr awake, w') \<Rightarrow> if awake then (Inr (), w') else poll vin deadline w')
      else (Inl (Error (wake_timeout vin)), w))"
  by pat_completeness auto

termination
  by (relation "measure (\<lambda>(vin, deadline, w). deadline - now w)")
     (auto simp: isVehicleAwake_def get_def tessieRequest_def fetch_def sleep_def
         WAKE_POLL_INTERVAL_MS_def split: sum.splits prod.splits if_splits)

declare poll.simps [simp del]

definition ensureAwake :: "string \<Rightarrow> world \<Rightarrow> (error + unit) \<times> world" where
  "ensureAwake vin w =
     (case isVehicleAwake vin w of
        (Inl e, w1) \<Rightarrow> (Inl e, w1)
      | (Inr awake, w1) \<Rightarrow>
          if awake then (Inr (), w1)
          else
            (case post (''/'' @ vin @ ''/wake'') None None w1 of
               (Inl e, w2) \<Rightarrow> (Inl e, w2)
             | (Inr _, w2) \<Rightarrow> poll vin (now w2 + WAKE_TIMEOUT_MS) w2))"

definition command :: "string \<Rightarrow> string \<Rightarrow> params option \<Rightarrow> world \<Rightarrow> (error + json) \<times> world" where
  "command vin commandPath params w =
     (case ensureAwake vin w of
        (Inl e, w') \<Rightarrow> (Inl e, w')
      | (Inr _, w') \<Rightarrow> post commandPath params None w')"

section \<open>Reusable schemas\<close>

definition vin_required :: string where
  "vin_required =
     ''VIN is required. Provide it as a parameter or set TESSIE_DEFAULT_VIN environment variable.''"

text \<open>A JavaScript string is truthy when it is neither \<open>undefined\<close> nor empty.\<close>

fun truthy :: "string option \<Rightarrow> bool" where
  "truthy None = False"
| "truthy (Some s) = (s \<noteq> [])"

text \<open>The transform of \<open>VinSchema\<close>: \<open>val || getDefaultVin()\<close>, then \<open>if (!vin) throw\<close>.\<close>

definition VinSchema :: "string option \<Rightarrow> world \<Rightarrow> error + string" where
  "VinSchema val w =
     (let vin = (if truthy val then val else getDefaultVin w)
      in case vin of
           None \<Rightarrow> Inl (Error vin_required)
         | Some v \<Rightarrow> if v = [] then Inl (Error vin_required) else Inr v)"

section \<open>Tools\<close>

text \<open>
  \<open>server.tool(name, {vin: VinSchema, ...}, handler)\<close>: the arguments are parsed by the
  schema first, and the handler runs on the parsed VIN only when parsing succeeded. The
  other arguments are taken as already accepted by their schemas. A tool's result is the
  payload that the handler wraps as text.
\<close>

definition vehicle_tool ::
    "string option \<Rightarrow> (string \<Rightarrow> world \<Rightarrow> (error + json) \<times> world) \<Rightarrow> world \<Rightarrow> (error + json) \<times> world" where
  "vehicle_tool val handler w =
     (case VinSchema val w of
        Inl e \<Rightarrow> (Inl e, w)
      | Inr vin \<Rightarrow> handler vin w)"

definition opt_bool :: "bool option \<Rightarrow> param_value option" where
  "opt_bool b = map_option PBool b"

definition opt_num :: "int option \<Rightarrow> param_value option" where
  "opt_num n = map_option PNum n"



subsection \<open>Vehicle state and data\<close>






definition get_location :: "string option \<Rightarrow> world \<Rightarrow> (error + json) \<times> world" where
  "get_location val = vehicle_tool val (\<lambda>vin. get (''/'' @ vin @ ''/location'') None)"





subsection \<open>Composite tool\<close>

text \<open>
  \<open>Promise.allSettled\<close> over three \<open>get\<close> calls. Each call runs up to its \<open>fetch\<close> when
  it is created, so the requests leave in source order and the i-th request meets the
  i-th answer of the network; a rejected call settles its own slot only. The three are
  in flight together, so the clock advances by the longest of them.
\<close>

fun settled :: "error + json \<Rightarrow> json" where
  "settled (Inr v) = v"
| "settled (Inl reason) = JObj [(''error'', JStr (message reason))]"

definition get_full_status :: "string option \<Rightarrow> world \<Rightarrow> (error + json) \<times> world" where
  "get_full_status val =
     vehicle_tool val (\<lambda>vin w.
       let (battery, w1) = get (''/'' @ vin @ ''/battery'') None w;
           (location, w2) = get (''/'' @ vin @ ''/location'') None w1;
           (state, w3) = get (''/'' @ vin @ ''/state'') (Some [(''use_cache'', Some (PBool True))]) w2
       in (Inr (JObj [(''battery'', settled battery),
                      (''location'', settled location),
                      (''state'', settled state)]),
           w3\<lparr>now := now w + max (now w1 - now w) (max (now w2 - now w1) (now w3 - now w2))\<rparr>))"

subsection \<open>Drives and charges\<close>



definition set_drive_tag :: "string option \<Rightarrow> string \<Rightarrow> string \<Rightarrow> world \<Rightarrow> (error + json) \<times> world" where
  "set_drive_tag val drives tag =
     vehicle_tool val (\<lambda>vin. post (''/'' @ vin @ ''/drives/set_tag'') None
       (Some (JObj [(''drives'', JStr drives), (''tag'', JStr tag)])))"


definition set_charge_cost :: "string option \<Rightarrow> string \<Rightarrow> int \<Rightarrow> world \<Rightarrow> (error + json) \<times> world" where
  "set_charge_cost val charge_id cost =
     vehicle_tool val (\<lambda>vin. post (''/'' @ vin @ ''/charges/'' @ charge_id @ ''/set_cost'')
       (Some [(''cost'', Some (PNum cost))]) None)"


subsection \<open>Resources\<close>




subsection \<open>Wake, lock and unlock\<close>

definition wake_vehicle :: "string option \<Rightarrow> world \<Rightarrow> (error + json) \<times> world" where
  "wake_vehicle val =
     vehicle_tool val (\<lambda>vin w.
       case ensureAwake vin w of
         (Inl e, w') \<Rightarrow> (Inl e, w')
       | (Inr _, w') \<Rightarrow> (Inr (JObj [(''status'', JStr ''awake'')]), w'))"

definition CommandOptions :: "bool option \<Rightarrow> int option \<Rightarrow> params" where
  "CommandOptions wait_for_completion max_attempts =
     [(''wait_for_completion'', opt_bool wait_for_completion),
      (''max_attempts'', opt_num max_attempts)]"

definition lock :: "string option \<Rightarrow> bool option \<Rightarrow> int option \<Rightarrow> world \<Rightarrow> (error + json) \<times> world" where
  "lock val wait_for_completion max_attempts =
     vehicle_tool val (\<lambda>vin. command vin (''/'' @ vin @ ''/command/lock'')
       (Some (CommandOptions wait_for_completion max_attempts)))"

definition unlock :: "string option \<Rightarrow> bool option \<Rightarrow> int option \<Rightarrow> world \<Rightarrow> (error + json) \<times> world" where
  "unlock val wait_for_completion max_attempts =
     vehicle_tool val (\<lambda>vin. command vin (''/'' @ vin @ ''/command/unlock'')
       (Some (CommandOptions wait_for_completion max_attempts)))"

section \<open>Vocabulary for the properties\<close>

text \<open>The events a call has added to the trace.\<close>

definition new_events :: "world \<Rightarrow> world \<Rightarrow> event list" where
  "new_events w w' = drop (length (trace w)) (trace w')"

definition status_request :: "string \<Rightarrow> string \<Rightarrow> request" where
  "status_request token vin = build_request GET (''/'' @ vin @ ''/status'') None None token"

definition wake_request :: "string \<Rightarrow> string \<Rightarrow> request" where
  "wake_request token vin = build_request POST (''/'' @ vin @ ''/wake'') None None token"

fun is_post :: "event \<Rightarrow> bool" where
  "is_post (Fetch req out) = (req_method req = POST)"
| "is_post (Sleep ms) = False"

text \<open>An answer to a status check, as \<open>isVehicleAwake\<close> reads it.\<close>

definition answers_awake :: "fetch_outcome \<Rightarrow> bool" where
  "answers_awake out = (case read_response out of Inl e \<Rightarrow> False | Inr data \<Rightarrow> status_is_awake data)"

definition answers_not_awake :: "fetch_outcome \<Rightarrow> bool" where
  "answers_not_awake out =
     (case read_response out of Inl e \<Rightarrow> False | Inr data \<Rightarrow> \<not> status_is_awake data)"

definition succeeds :: "fetch_outcome \<Rightarrow> bool" where
  "succeeds out = (case read_response out of Inl e \<Rightarrow> False | Inr data \<Rightarrow> True)"

fun is_status_check :: "string \<Rightarrow> event \<Rightarrow> bool" where
  "is_status_check vin (Fetch req out) =
     (req_method req = GET \<and> req_url req = BASE_URL @ ''/'' @ vin @ ''/status'')"
| "is_status_check vin (Sleep ms) = False"

fun reports_awake :: "string \<Rightarrow> event \<Rightarrow> bool" where
  "reports_awake vin (Fetch req out) =
     (req_method req = GET \<and> req_url req = BASE_URL @ ''/'' @ vin @ ''/status'' \<and> answers_awake out)"
| "reports_awake vin (Sleep ms) = False"

text \<open>The clock when the wake command has returned and the deadline is set: the first
  status check and the wake command have each taken their time.\<close>

definition polling_began :: "world \<Rightarrow> nat" where
  "polling_began w = now w + fst (network w 0) + fst (network w 1)"

text \<open>The events of a run of the poll loop in which the checks met the answers \<open>outs\<close>.\<close>

definition poll_events :: "string \<Rightarrow> string \<Rightarrow> fetch_outcome list \<Rightarrow> event list" where
  "poll_events token vin outs =
     concat (map (\<lambda>out. [Sleep WAKE_POLL_INTERVAL_MS, Fetch (status_request token vin) out]) outs)"




section \<open>Example worlds\<close>

text \<open>Answers of the remote service and worlds to run the tools in. The raw text of a
  JSON answer plays no part in what follows and is left empty.\<close>

definition ok_json :: "json \<Rightarrow> fetch_outcome" where
  "ok_json v = Responds \<lparr>resp_status = 200,
                          resp_content_type = Some ''application/json; charset=utf-8'',
                          resp_text = [], resp_json = Inr v\<rparr>"

definition says_asleep :: fetch_outcome where
  "says_asleep = ok_json (JObj [(''status'', JStr ''asleep'')])"

definition says_awake :: fetch_outcome where
  "says_awake = ok_json (JObj [(''status'', JStr ''awake'')])"

definition accepted :: fetch_outcome where
  "accepted = ok_json (JObj [(''result'', JBool True)])"

definition unavailable :: fetch_outcome where
  "unavailable = Responds \<lparr>resp_status = 503, resp_content_type = Some ''text/plain'',
                            resp_text = ''service unavailable'', resp_json = Inl ''Unexpected token s''\<rparr>"

definition server_error :: fetch_outcome where
  "server_error = Responds \<lparr>resp_status = 500, resp_content_type = Some ''text/plain'',
                            resp_text = ''Internal Server Error'', resp_json = Inl ''Unexpected token I''\<rparr>"

definition example_vin :: string where
  "example_vin = ''5YJ3E1EA7KF317000''"

definition example_world :: world where
  "example_world =
     \<lparr>TESSIE_API_TOKEN = Some ''secret'', TESSIE_DEFAULT_VIN = None,
      TESSIE_DISTANCE_FORMAT = None, TESSIE_TEMP_FORMAT = None, TESSIE_PRESSURE_FORMAT = None,
      now = 1000, network = (\<lambda>n. (0, Rejects ''offline'')), trace = []\<rparr>"

definition no_token_world :: world where
  "no_token_world = example_world\<lparr>TESSIE_API_TOKEN := None\<rparr>"

definition default_vin_world :: world where
  "default_vin_world = example_world\<lparr>TESSIE_DEFAULT_VIN := Some example_vin\<rparr>"

definition awake_world :: world where
  "awake_world =
     example_world\<lparr>network := (\<lambda>n. if n = 0 then (120, says_awake) else (200, accepted))\<rparr>"

definition waking_world :: world where
  "waking_world =
     example_world\<lparr>network := (\<lambda>n. if n = 0 then (120, says_asleep)
                                   else if n = 1 then (300, accepted)
                                   else if n = 2 then (150, says_awake)
                                   else (200, accepted))\<rparr>"




definition unavailable_world :: world where
  "unavailable_world =
     example_world\<lparr>network := (\<lambda>n. if n = 0 then (120, says_awake) else (80, unavailable))\<rparr>"

definition partial_world :: world where
  "partial_world =
     example_world\<lparr>network := (\<lambda>n. if n = 0 then (90, ok_json (JObj [(''battery_level'', JNum 80)]))
                                   else if n = 1 then (40, server_error)
                                   else (70, ok_json (JObj [(''state'', JStr ''online'')])))\<rparr>"

declare String_nat.simps [simp del]

section \<open>Facts about the transport client\<close>

lemma getToken_truthy: "getToken w = Inr token \<longleftrightarrow> TESSIE_API_TOKEN w = Some token \<and> token \<noteq> []"
  by (cases "TESSIE_API_TOKEN w") (auto simp: getToken_def)

lemma getToken_falsy: "\<not> truthy (TESSIE_API_TOKEN w) \<Longrightarrow> getToken w = Inl (Error token_required)"
  by (cases "TESSIE_API_TOKEN w") (auto simp: getToken_def)

lemma tessieRequest_no_token:
  "getToken w = Inl e \<Longrightarrow> tessieRequest m p ps b w = (Inl e, w)"
  by (simp add: tessieRequest_def)

lemma tessieRequest_token:
  "getToken w = Inr token \<Longrightarrow>
   tessieRequest m p ps b w =
     (read_response (snd (network w 0)), snd (fetch (build_request m p ps b token) w))"
  by (simp add: tessieRequest_def fetch_def split: prod.splits)

lemma fetch_fields [simp]:
  "trace (snd (fetch req w)) = trace w @ [Fetch req (snd (network w 0))]"
  "now (snd (fetch req w)) = now w + fst (network w 0)"
  "network (snd (fetch req w)) = (\<lambda>n. network w (Suc n))"
  "getToken (snd (fetch req w)) = getToken w"
  "getDefaultVin (snd (fetch req w)) = getDefaultVin w"
  by (simp_all add: fetch_def getToken_def getDefaultVin_def split: prod.splits)

lemma sleep_fields [simp]:
  "trace (sleep ms w) = trace w @ [Sleep ms]"
  "now (sleep ms w) = now w + ms"
  "network (sleep ms w) = network w"
  "getToken (sleep ms w) = getToken w"
  by (simp_all add: sleep_def getToken_def)

lemma String_nat_503: "String_nat 503 = ''503''"
  by (simp add: String_nat.simps digit_char_def)


lemma request_fields [simp]:
  "req_method (build_request method path params body token) = method"
  "req_url (build_request method path params body token) = BASE_URL @ path"
  "req_method (status_request token vin) = GET"
  "req_url (status_request token vin) = BASE_URL @ ''/'' @ vin @ ''/status''"
  "req_method (wake_request token vin) = POST"
  by (simp_all add: status_request_def wake_request_def build_request_def Let_def)

lemma read_response_not_ok:
  "\<not> ok r \<Longrightarrow> read_response (Responds r) = Inl (Error (api_error (resp_status r) (resp_text r)))"
  by (simp add: read_response_def)

lemma isVehicleAwake_token:
  "getToken w = Inr token \<Longrightarrow>
   isVehicleAwake vin w =
     ((case read_response (snd (network w 0)) of
         Inl e \<Rightarrow> Inl e
       | Inr data \<Rightarrow> Inr (status_is_awake data)),
      snd (fetch (status_request token vin) w))"
  by (simp add: isVehicleAwake_def get_def tessieRequest_token status_request_def split: sum.splits)

lemmas example_worlds =
  example_world_def ok_json_def says_asleep_def says_awake_def accepted_def example_vin_def

section \<open>The bearer token\<close>

text \<open>
  Claim C8. For every invocation of the transport request, when no bearer token can be
  read from the process environment (\<open>TESSIE_API_TOKEN\<close> is unset or empty, the two
  cases \<open>!token\<close> covers) the request fails with the configuration error, and it fails
  before any network I/O: the world comes back as it was, so nothing was added to the
  trace and no answer of the network was consumed.
\<close>

theorem request_requires_token:
  "\<not> truthy (TESSIE_API_TOKEN w) \<Longrightarrow>
   tessieRequest method path params body w = (Inl (Error token_required), w) \<and>
   trace (snd (tessieRequest method path params body w)) = trace w"
  by (simp add: tessieRequest_no_token getToken_falsy)

theorem request_requires_token_witness:
  "\<not> truthy (TESSIE_API_TOKEN no_token_world) \<and>
   tessieRequest POST ''/5YJ3E1EA7KF317000/command/lock'' None None no_token_world =
     (Inl (Error token_required), no_token_world) \<and>
   trace (snd (tessieRequest POST ''/5YJ3E1EA7KF317000/command/lock'' None None no_token_world)) = []"
  using request_requires_token [of no_token_world POST "''/5YJ3E1EA7KF317000/command/lock''" None None]
  by (simp add: no_token_world_def example_world_def)

section \<open>First steps of the wake orchestration\<close>

lemma ensureAwake_awake:
  assumes "getToken w = Inr token" and "answers_awake (snd (network w 0))"
  shows "ensureAwake vin w = (Inr (), snd (fetch (status_request token vin) w))"
  using assms
  by (auto simp: ensureAwake_def isVehicleAwake_token answers_awake_def split: sum.splits)

lemma ensureAwake_no_token: "getToken w = Inl e \<Longrightarrow> ensureAwake vin w = (Inl e, w)"
  by (simp add: ensureAwake_def isVehicleAwake_def get_def tessieRequest_no_token)

lemma ensureAwake_check_failed:
  assumes "getToken w = Inr token" and "read_response (snd (network w 0)) = Inl e"
  shows "ensureAwake vin w = (Inl e, snd (fetch (status_request token vin) w))"
  using assms by (simp add: ensureAwake_def isVehicleAwake_token)

lemma not_awake_data:
  "answers_not_awake out \<Longrightarrow> \<exists>data. read_response out = Inr data \<and> \<not> status_is_awake data"
  by (auto simp: answers_not_awake_def split: sum.splits)

lemma not_awake_not_awake: "answers_not_awake out \<Longrightarrow> \<not> answers_awake out"
  by (auto simp: answers_not_awake_def answers_awake_def split: sum.splits)

lemma answers_cases:
  "answers_awake out \<or> answers_not_awake out \<or> (\<exists>e. read_response out = Inl e)"
  by (auto simp: answers_not_awake_def answers_awake_def split: sum.splits)

lemma ensureAwake_wake_failed:
  assumes "getToken w = Inr token" and "answers_not_awake (snd (network w 0))"
    and "read_response (snd (network w 1)) = Inl e"
  shows "ensureAwake vin w =
           (Inl e, snd (fetch (wake_request token vin) (snd (fetch (status_request token vin) w))))"
proof -
  from not_awake_data[OF assms(2)] obtain data where
    "read_response (snd (network w 0)) = Inr data" "\<not> status_is_awake data" by blast
  moreover have "getToken (snd (fetch (status_request token vin) w)) = Inr token"
    using assms(1) by simp
  ultimately show ?thesis
    using assms(1,3)
    by (simp add: ensureAwake_def isVehicleAwake_token post_def tessieRequest_token wake_request_def)
qed

lemma ensureAwake_polls:
  assumes "getToken w = Inr token" and "answers_not_awake (snd (network w 0))"
    and "succeeds (snd (network w 1))"
  shows "ensureAwake vin w =
           poll vin (polling_began w + WAKE_TIMEOUT_MS)
             (snd (fetch (wake_request token vin) (snd (fetch (status_request token vin) w))))"
proof -
  from not_awake_data[OF assms(2)] obtain data where
    "read_response (snd (network w 0)) = Inr data" "\<not> status_is_awake data" by blast
  moreover have "getToken (snd (fetch (status_request token vin) w)) = Inr token"
    using assms(1) by simp
  moreover from assms(3) obtain reply where "read_response (snd (network w 1)) = Inr reply"
    by (auto simp: succeeds_def split: sum.splits)
  ultimately show ?thesis
    using assms(1)
    by (simp add: ensureAwake_def isVehicleAwake_token post_def tessieRequest_token
        wake_request_def polling_began_def)
qed

lemma succeeds_cases: "succeeds out \<or> (\<exists>e. read_response out = Inl e)"
  by (auto simp: succeeds_def split: sum.splits)

section \<open>Non-2xx answers\<close>

text \<open>
  Claim C7. When the remote service answers a request with a status outside 200-299, the
  request fails with an error whose message carries that status and the raw body text,
  character for character (the body is never parsed), and the one \<open>fetch\<close> is all that
  was sent: there is no retry. The failure reaches the caller of the tool. For \<open>lock\<close>:
  when the status check itself is answered that way, \<open>lock\<close> fails with that error after
  that single request (no wake command, no command); when the vehicle is awake and the
  command is answered that way, \<open>lock\<close> fails with that error after exactly the status
  check and the one command request.
\<close>

theorem non_2xx_surfaces:
  assumes "getToken w = Inr token"
  shows "(network w 0 = (latency, Responds r) \<and> \<not> ok r \<longrightarrow>
            fst (tessieRequest method path params body w) =
              Inl (Error (''Tessie API error '' @ String_nat (resp_status r) @ '': '' @ resp_text r)) \<and>
            trace (snd (tessieRequest method path params body w)) =
              trace w @ [Fetch (build_request method path params body token) (Responds r)]) \<and>
         (VinSchema val w = Inr vin \<and> network w 0 = (latency, Responds r) \<and> \<not> ok r \<longrightarrow>
            fst (lock val wait_for_completion max_attempts w) =
              Inl (Error (''Tessie API error '' @ String_nat (resp_status r) @ '': '' @ resp_text r)) \<and>
            trace (snd (lock val wait_for_completion max_attempts w)) =
              trace w @ [Fetch (status_request token vin) (Responds r)]) \<and>
         (VinSchema val w = Inr vin \<and> answers_awake (snd (network w 0)) \<and>
          network w 1 = (latency, Responds r) \<and> \<not> ok r \<longrightarrow>
            fst (lock val wait_for_completion max_attempts w) =
              Inl (Error (''Tessie API error '' @ String_nat (resp_status r) @ '': '' @ resp_text r)) \<and>
            trace (snd (lock val wait_for_completion max_attempts w)) =
              trace w @
              [Fetch (status_request token vin) (snd (network w 0)),
               Fetch (build_request POST (''/'' @ vin @ ''/command/lock'')
                        (Some (CommandOptions wait_for_completion max_attempts)) None token)
                 (Responds r)])"
proof (intro conjI impI)
  assume h: "network w 0 = (latency, Responds r) \<and> \<not> ok r"
  with assms show "fst (tessieRequest method path params body w) =
      Inl (Error (''Tessie API error '' @ String_nat (resp_status r) @ '': '' @ resp_text r))"
    by (simp add: tessieRequest_token read_response_not_ok api_error_def)
  from h assms show "trace (snd (tessieRequest method path params body w)) =
      trace w @ [Fetch (build_request method path params body token) (Responds r)]"
    by (simp add: tessieRequest_token)
next
  assume h: "VinSchema val w = Inr vin \<and> network w 0 = (latency, Responds r) \<and> \<not> ok r"
  then have failed: "read_response (snd (network w 0)) =
      Inl (Error (api_error (resp_status r) (resp_text r)))"
    by (simp add: read_response_not_ok)
  from h have run: "lock val wait_for_completion max_attempts w =
      (Inl (Error (api_error (resp_status r) (resp_text r))),
       snd (fetch (status_request token vin) w))"
    by (simp add: lock_def vehicle_tool_def command_def
        ensureAwake_check_failed[OF assms failed])
  show "fst (lock val wait_for_completion max_attempts w) =
      Inl (Error (''Tessie API error '' @ String_nat (resp_status r) @ '': '' @ resp_text r))"
    by (simp add: run api_error_def)
  from h show "trace (snd (lock val wait_for_completion max_attempts w)) =
      trace w @ [Fetch (status_request token vin) (Responds r)]"
    by (simp add: run)
next
  assume h: "VinSchema val w = Inr vin \<and> answers_awake (snd (network w 0)) \<and>
          network w 1 = (latency, Responds r) \<and> \<not> ok r"
  let ?w1 = "snd (fetch (status_request token vin) w)"
  from h assms have gate: "ensureAwake vin w = (Inr (), ?w1)"
    by (simp add: ensureAwake_awake)
  have tok1: "getToken ?w1 = Inr token" using assms by simp
  have net1: "network ?w1 0 = (latency, Responds r)" using h by simp
  have cmd: "lock val wait_for_completion max_attempts w =
      tessieRequest POST (''/'' @ vin @ ''/command/lock'')
        (Some (CommandOptions wait_for_completion max_attempts)) None ?w1"
    using h gate by (simp add: lock_def vehicle_tool_def command_def post_def)
  from h show "fst (lock val wait_for_completion max_attempts w) =
      Inl (Error (''Tessie API error '' @ String_nat (resp_status r) @ '': '' @ resp_text r))"
    by (simp add: cmd tessieRequest_token[OF tok1] net1 read_response_not_ok api_error_def)
  from h show "trace (snd (lock val wait_for_completion max_attempts w)) =
      trace w @
      [Fetch (status_request token vin) (snd (network w 0)),
       Fetch (build_request POST (''/'' @ vin @ ''/command/lock'')
                (Some (CommandOptions wait_for_completion max_attempts)) None token)
         (Responds r)]"
    by (simp add: cmd tessieRequest_token[OF tok1])
qed

text \<open>The scenario of the specification: \<open>lock\<close> on an awake vehicle, answered with HTTP 503
  and the body \<open>service unavailable\<close>.\<close>

theorem non_2xx_surfaces_witness:
  "getToken unavailable_world = Inr ''secret'' \<and>
   fst (tessieRequest GET ''/vehicles'' None None (unavailable_world\<lparr>network := (\<lambda>n. (80, unavailable))\<rparr>)) =
     Inl (Error ''Tessie API error 503: service unavailable'') \<and>
   fst (lock (Some example_vin) None None (unavailable_world\<lparr>network := (\<lambda>n. (80, unavailable))\<rparr>)) =
     Inl (Error ''Tessie API error 503: service unavailable'') \<and>
   length (trace (snd (lock (Some example_vin) None None
                         (unavailable_world\<lparr>network := (\<lambda>n. (80, unavailable))\<rparr>)))) = 1 \<and>
   fst (lock (Some example_vin) None None unavailable_world) =
     Inl (Error ''Tessie API error 503: service unavailable'') \<and>
   length (trace (snd (lock (Some example_vin) None None unavailable_world))) = 2"
  using non_2xx_surfaces [of "unavailable_world\<lparr>network := (\<lambda>n. (80, unavailable))\<rparr>" "''secret''" 80
      "\<lparr>resp_status = 503, resp_content_type = Some ''text/plain'',
        resp_text = ''service unavailable'', resp_json = Inl ''Unexpected token s''\<rparr>"
      GET "''/vehicles''" None None "Some example_vin" example_vin None None]
    non_2xx_surfaces [of unavailable_world "''secret''" 80
      "\<lparr>resp_status = 503, resp_content_type = Some ''text/plain'',
        resp_text = ''service unavailable'', resp_json = Inl ''Unexpected token s''\<rparr>"
      GET "''/vehicles''" None None "Some example_vin" example_vin None None]
  by (simp add: example_worlds unavailable_world_def unavailable_def getToken_def VinSchema_def
      ok_def answers_awake_def
      read_response_def String_nat_503)

section \<open>Query parameters\<close>






section \<open>VIN resolution\<close>

text \<open>
  Claim C4 says that an explicit per-call VIN, when given, is the one used, before the
  configured default. The schema accepts the empty string as an explicit value, and
  \<open>val || getDefaultVin()\<close> passes over it: with a default configured, the default is
  used and not the explicit value.
\<close>

theorem explicit_vin_counterexample:
  "VinSchema (Some '''') default_vin_world = Inr example_vin \<and>
   VinSchema (Some '''') default_vin_world \<noteq> Inr ''''"
  by (simp add: VinSchema_def getDefaultVin_def example_worlds default_vin_world_def)

text \<open>
  Claim C4, amended. For every vehicle-scoped tool the VIN is resolved in this order: a
  non-empty explicit VIN is used, whatever the default; otherwise (no explicit VIN, or
  the empty string) a non-empty configured default is used; otherwise the tool fails
  with the VIN-required error and its handler never runs, so the world is unchanged and
  no request was sent.
\<close>

theorem vin_resolution_order:
  "(explicit \<noteq> [] \<longrightarrow> VinSchema (Some explicit) w = Inr explicit) \<and>
   (\<not> truthy val \<and> TESSIE_DEFAULT_VIN w = Some fallback \<and> fallback \<noteq> [] \<longrightarrow>
      VinSchema val w = Inr fallback) \<and>
   (\<not> truthy val \<and> \<not> truthy (TESSIE_DEFAULT_VIN w) \<longrightarrow>
      VinSchema val w = Inl (Error vin_required) \<and>
      vehicle_tool val handler w = (Inl (Error vin_required), w))"
  by (cases "TESSIE_DEFAULT_VIN w")
     (auto simp: VinSchema_def vehicle_tool_def getDefaultVin_def Let_def)

theorem vin_resolution_order_witness:
  "VinSchema (Some ''7SAYGDEE7PA000001'') default_vin_world = Inr ''7SAYGDEE7PA000001'' \<and>
   VinSchema None default_vin_world = Inr example_vin \<and>
   VinSchema None example_world = Inl (Error vin_required) \<and>
   get_location None example_world = (Inl (Error vin_required), example_world)"
  using vin_resolution_order [of "''7SAYGDEE7PA000001''" default_vin_world None example_vin]
    vin_resolution_order [of "''7SAYGDEE7PA000001''" example_world None example_vin
      "\<lambda>vin. get (''/'' @ vin @ ''/location'') None"]
  by (simp add: example_worlds default_vin_world_def get_location_def)

text \<open>
  Claim C10. An explicit VIN that is the empty string is treated as an absent one, by the
  schema and so by every vehicle-scoped tool: the configured default is used when there
  is one (a non-empty one), and otherwise the tool fails with the VIN-required error.
  The empty explicit value is never the VIN resolved.
\<close>

theorem empty_vin_is_absent:
  "VinSchema (Some '''') w = VinSchema None w \<and>
   vehicle_tool (Some '''') handler w = vehicle_tool None handler w \<and>
   VinSchema None w =
     (case TESSIE_DEFAULT_VIN w of
        None \<Rightarrow> Inl (Error vin_required)
      | Some fallback \<Rightarrow> if fallback = [] then Inl (Error vin_required) else Inr fallback) \<and>
   VinSchema (Some '''') w \<noteq> Inr ''''"
  by (cases "TESSIE_DEFAULT_VIN w")
     (auto simp: VinSchema_def vehicle_tool_def getDefaultVin_def Let_def)

theorem empty_vin_is_absent_witness:
  "VinSchema (Some '''') default_vin_world = VinSchema None default_vin_world \<and>
   VinSchema None default_vin_world = Inr example_vin \<and>
   VinSchema (Some '''') example_world = Inl (Error vin_required)"
  using empty_vin_is_absent [of default_vin_world] empty_vin_is_absent [of example_world]
  by (simp add: example_worlds default_vin_world_def)

section \<open>Read-only tools\<close>




lemma get_full_status_token:
  assumes "VinSchema val w = Inr vin" and "getToken w = Inr token"
  shows "fst (get_full_status val w) =
           Inr (JObj [(''battery'', settled (read_response (snd (network w 0)))),
                      (''location'', settled (read_response (snd (network w 1)))),
                      (''state'', settled (read_response (snd (network w 2))))])"
    and "trace (snd (get_full_status val w)) =
           trace w @
           [Fetch (build_request GET (''/'' @ vin @ ''/battery'') None None token) (snd (network w 0)),
            Fetch (build_request GET (''/'' @ vin @ ''/location'') None None token) (snd (network w 1)),
            Fetch (build_request GET (''/'' @ vin @ ''/state'')
                     (Some [(''use_cache'', Some (PBool True))]) None token) (snd (network w 2))]"
  using assms
  by (simp_all add: get_full_status_def vehicle_tool_def get_def tessieRequest_token Let_def
      numeral_2_eq_2)

lemma get_full_status_no_token:
  assumes "VinSchema val w = Inr vin" and "getToken w = Inl e"
  shows "fst (get_full_status val w) =
           Inr (JObj [(''battery'', settled (Inl e)),
                      (''location'', settled (Inl e)),
                      (''state'', settled (Inl e))])"
    and "trace (snd (get_full_status val w)) = trace w"
  using assms
  by (simp_all add: get_full_status_def vehicle_tool_def get_def tessieRequest_no_token Let_def)




section \<open>The composite read\<close>

text \<open>
  Claim C6. \<open>get_full_status\<close> with exactly one of its three reads failing, whichever it
  is: the result holds the payloads of the two reads that succeeded and, in the slot of
  the failed one, an object with the failure's message under \<open>error\<close>. The tool returns
  and does not raise, as it does whatever the three reads come to.
\<close>

theorem full_status_partial_failure:
  assumes "VinSchema val w = Inr vin"
  shows "(getToken w = Inr token \<and> read_response (snd (network w 0)) = Inl e \<and>
          read_response (snd (network w 1)) = Inr location \<and>
          read_response (snd (network w 2)) = Inr state \<longrightarrow>
            fst (get_full_status val w) =
              Inr (JObj [(''battery'', JObj [(''error'', JStr (message e))]),
                         (''location'', location), (''state'', state)])) \<and>
         (getToken w = Inr token \<and> read_response (snd (network w 0)) = Inr battery \<and>
          read_response (snd (network w 1)) = Inl e \<and>
          read_response (snd (network w 2)) = Inr state \<longrightarrow>
            fst (get_full_status val w) =
              Inr (JObj [(''battery'', battery),
                         (''location'', JObj [(''error'', JStr (message e))]), (''state'', state)])) \<and>
         (getToken w = Inr token \<and> read_response (snd (network w 0)) = Inr battery \<and>
          read_response (snd (network w 1)) = Inr location \<and>
          read_response (snd (network w 2)) = Inl e \<longrightarrow>
            fst (get_full_status val w) =
              Inr (JObj [(''battery'', battery), (''location'', location),
                         (''state'', JObj [(''error'', JStr (message e))])])) \<and>
         (\<exists>result. fst (get_full_status val w) = Inr result)"
proof -
  have "\<exists>result. fst (get_full_status val w) = Inr result"
    using assms get_full_status_token(1)[OF assms] get_full_status_no_token(1)[OF assms]
    by (cases "getToken w") auto
  then show ?thesis
    using get_full_status_token(1)[OF assms, of token] by auto
qed

theorem full_status_partial_failure_witness:
  "VinSchema (Some example_vin) partial_world = Inr example_vin \<and>
   getToken partial_world = Inr ''secret'' \<and>
   read_response (snd (network partial_world 1)) =
     Inl (Error ''Tessie API error 500: Internal Server Error'') \<and>
   fst (get_full_status (Some example_vin) partial_world) =
     Inr (JObj [(''battery'', JObj [(''battery_level'', JNum 80)]),
                (''location'', JObj [(''error'', JStr ''Tessie API error 500: Internal Server Error'')]),
                (''state'', JObj [(''state'', JStr ''online'')])])"
  using full_status_partial_failure [of "Some example_vin" partial_world example_vin "''secret''"
      "Error ''Tessie API error 500: Internal Server Error''"
      "JObj [(''state'', JStr ''online'')]" "JObj [(''state'', JStr ''online'')]"
      "JObj [(''battery_level'', JNum 80)]"]
  by (simp add: example_worlds partial_world_def server_error_def VinSchema_def getToken_def
      read_response_def ok_def api_error_def
      String_nat.simps digit_char_def)

section \<open>The fast path of the wake orchestration\<close>

text \<open>
  Claim C2. When the first status check of \<open>ensureAwake\<close> reports the vehicle awake, the
  orchestration succeeds at once: the only event is that status check, so the number of
  status checks is 1, no \<open>POST\<close> (no wake command) was sent and no pause of the poll loop
  was taken; the clock has moved by the time of that one check.
\<close>

theorem ensureAwake_fast_path:
  assumes "getToken w = Inr token" and "answers_awake (snd (network w 0))"
  shows "fst (ensureAwake vin w) = Inr () \<and>
         trace (snd (ensureAwake vin w)) =
           trace w @ [Fetch (status_request token vin) (snd (network w 0))] \<and>
         length (filter (is_status_check vin) (new_events w (snd (ensureAwake vin w)))) = 1 \<and>
         filter is_post (new_events w (snd (ensureAwake vin w))) = [] \<and>
         now (snd (ensureAwake vin w)) = now w + fst (network w 0)"
  using assms
  by (simp add: ensureAwake_awake new_events_def status_request_def build_request_def)

theorem ensureAwake_fast_path_witness:
  "getToken awake_world = Inr ''secret'' \<and>
   answers_awake (snd (network awake_world 0)) \<and>
   fst (ensureAwake example_vin awake_world) = Inr () \<and>
   trace (snd (ensureAwake example_vin awake_world)) =
     [Fetch (status_request ''secret'' example_vin) says_awake]"
  using ensureAwake_fast_path [of awake_world "''secret''" example_vin]
  by (simp add: example_worlds awake_world_def getToken_def answers_awake_def read_response_def ok_def)

section \<open>The poll loop\<close>

lemma poll_expired:
  "\<not> now w < deadline \<Longrightarrow> poll vin deadline w = (Inl (Error (wake_timeout vin)), w)"
  by (simp add: poll.simps)

lemma poll_step:
  "now w < deadline \<Longrightarrow>
   poll vin deadline w =
     (case isVehicleAwake vin (sleep WAKE_POLL_INTERVAL_MS w) of
        (Inl e, w') \<Rightarrow> (Inl e, w')
      | (Inr awake, w') \<Rightarrow> if awake then (Inr (), w') else poll vin deadline w')"
  by (simp add: poll.simps)

text \<open>One iteration, read off the next answer of the network.\<close>

lemma poll_iteration:
  assumes "getToken w = Inr token" and "now w < deadline"
  shows "poll vin deadline w =
     (case read_response (snd (network w 0)) of
        Inl e \<Rightarrow> (Inl e, snd (fetch (status_request token vin) (sleep WAKE_POLL_INTERVAL_MS w)))
      | Inr data \<Rightarrow>
          if status_is_awake data
          then (Inr (), snd (fetch (status_request token vin) (sleep WAKE_POLL_INTERVAL_MS w)))
          else poll vin deadline (snd (fetch (status_request token vin) (sleep WAKE_POLL_INTERVAL_MS w))))"
proof -
  have "getToken (sleep WAKE_POLL_INTERVAL_MS w) = Inr token" using assms(1) by simp
  from isVehicleAwake_token[OF this] assms(2) show ?thesis
    by (simp add: poll_step split: sum.splits)
qed

lemma poll_events_Nil [simp]: "poll_events token vin [] = []"
  by (simp add: poll_events_def)

lemma poll_events_Cons:
  "poll_events token vin (out # outs) =
     Sleep WAKE_POLL_INTERVAL_MS # Fetch (status_request token vin) out # poll_events token vin outs"
  by (simp add: poll_events_def)

lemma poll_events_no_post: "ev \<in> set (poll_events token vin outs) \<Longrightarrow> \<not> is_post ev"
  by (induction outs) (auto simp: poll_events_Cons status_request_def build_request_def)

lemma poll_events_empty [simp]: "poll_events token vin outs = [] \<longleftrightarrow> outs = []"
  by (cases outs) (auto simp: poll_events_Cons)

lemma poll_events_last:
  "outs \<noteq> [] \<Longrightarrow> last (poll_events token vin outs) = Fetch (status_request token vin) (last outs)"
  by (induction outs) (auto simp: poll_events_Cons)

lemma poll_run:
  "getToken w = Inr token \<Longrightarrow> poll vin deadline w = (r, w') \<Longrightarrow>
   getToken w' = Inr token \<and>
   (\<exists>outs. trace w' = trace w @ poll_events token vin outs \<and>
           (r = Inr () \<longrightarrow> outs \<noteq> [] \<and> answers_awake (last outs)))"
proof (induction vin deadline w arbitrary: r w' rule: poll.induct)
  case (1 vin deadline w)
  show ?case
  proof (cases "now w < deadline")
    case False
    with 1(2,3) have "w' = w" "r \<noteq> Inr ()" by (auto simp: poll_expired)
    with 1(2) show ?thesis by (auto intro: exI[of _ "[]"])
  next
    case True
    let ?ws = "sleep WAKE_POLL_INTERVAL_MS w"
    let ?out = "snd (network w 0)"
    let ?w1 = "snd (fetch (status_request token vin) ?ws)"
    have tok: "getToken ?ws = Inr token" using 1(2) by simp
    have chk: "isVehicleAwake vin ?ws =
        ((case read_response ?out of Inl e \<Rightarrow> Inl e | Inr data \<Rightarrow> Inr (status_is_awake data)), ?w1)"
      using isVehicleAwake_token[OF tok] by simp
    have tok1: "getToken ?w1 = Inr token" using tok by simp
    have tr1: "trace ?w1 = trace w @ poll_events token vin [?out]"
      by (simp add: poll_events_Cons)
    note step = poll_iteration[OF 1(2) True, of vin]
    show ?thesis
    proof (cases "read_response ?out")
      case (Inl e)
      with step 1(3) have "w' = ?w1" "r \<noteq> Inr ()" by auto
      with tr1 tok1 show ?thesis by blast
    next
      case (Inr data)
      show ?thesis
      proof (cases "status_is_awake data")
        case awake: True
        with Inr step 1(3) have "w' = ?w1" by auto
        moreover have "answers_awake ?out" using Inr awake by (simp add: answers_awake_def)
        ultimately show ?thesis using tr1 tok1 by (auto intro: exI[of _ "[?out]"])
      next
        case asleep: False
        with Inr step 1(3) have rec: "poll vin deadline ?w1 = (r, w')" by auto
        from "1.IH"[OF True _ _ _ tok1 rec] chk Inr asleep
        obtain outs where outs: "getToken w' = Inr token"
            "trace w' = trace ?w1 @ poll_events token vin outs"
            "r = Inr () \<longrightarrow> outs \<noteq> [] \<and> answers_awake (last outs)"
          by auto
        have "trace w' = trace w @ poll_events token vin (?out # outs)"
          using outs(2) by (simp add: poll_events_Cons)
        moreover have "r = Inr () \<longrightarrow> ?out # outs \<noteq> [] \<and> answers_awake (last (?out # outs))"
          using outs(3) by auto
        ultimately show ?thesis using outs(1) by blast
      qed
    qed
  qed
qed



lemmas run_defs =
  command_def ensureAwake_def isVehicleAwake_def get_def post_def tessieRequest_def fetch_def
  sleep_def getToken_def read_response_def ok_def poll_expired poll_step
  WAKE_TIMEOUT_MS_def WAKE_POLL_INTERVAL_MS_def

section \<open>The timeout of the wake orchestration\<close>





section \<open>The whole orchestration\<close>

lemma ensureAwake_run:
  assumes tok: "getToken w = Inr token" and run: "ensureAwake vin w = (r, w')"
  shows "getToken w' = Inr token \<and>
     (trace w' = trace w @ [Fetch (status_request token vin) (snd (network w 0))] \<and>
      (r = Inr () \<longleftrightarrow> answers_awake (snd (network w 0))) \<or>
      answers_not_awake (snd (network w 0)) \<and>
      (\<exists>outs. trace w' =
                trace w @ Fetch (status_request token vin) (snd (network w 0)) #
                          Fetch (wake_request token vin) (snd (network w 1)) #
                          poll_events token vin outs \<and>
              (r = Inr () \<longrightarrow> outs \<noteq> [] \<and> answers_awake (last outs))))"
proof -
  let ?out = "snd (network w 0)"
  let ?w1 = "snd (fetch (status_request token vin) w)"
  let ?w2 = "snd (fetch (wake_request token vin) ?w1)"
  from answers_cases[of ?out] consider
      (awake) "answers_awake ?out"
    | (failed) e where "read_response ?out = Inl e"
    | (asleep) "answers_not_awake ?out"
    by blast
  then show ?thesis
  proof cases
    case awake
    with tok run have "r = Inr ()" "w' = ?w1" by (simp_all add: ensureAwake_awake)
    with awake tok show ?thesis by simp
  next
    case failed
    with tok run have "r = Inl e" "w' = ?w1" by (simp_all add: ensureAwake_check_failed)
    moreover from failed have "\<not> answers_awake ?out" by (simp add: answers_awake_def)
    ultimately show ?thesis using tok by simp
  next
    case asleep
    have tok2: "getToken ?w2 = Inr token" using tok by simp
    have tr2: "trace ?w2 = trace w @ [Fetch (status_request token vin) ?out,
                                      Fetch (wake_request token vin) (snd (network w 1))]"
      by simp
    from succeeds_cases[of "snd (network w 1)"] show ?thesis
    proof
      assume "succeeds (snd (network w 1))"
      with tok asleep run
      have "poll vin (polling_began w + WAKE_TIMEOUT_MS) ?w2 = (r, w')"
        by (simp add: ensureAwake_polls)
      from poll_run[OF tok2 this] tr2 asleep show ?thesis by auto
    next
      assume "\<exists>e. read_response (snd (network w 1)) = Inl e"
      then obtain e where "read_response (snd (network w 1)) = Inl e" ..
      with tok asleep run have "r = Inl e" "w' = ?w2" by (simp_all add: ensureAwake_wake_failed)
      with tr2 tok2 asleep show ?thesis by (auto intro: exI[of _ "[]"])
    qed
  qed
qed

section \<open>The command dispatcher\<close>

lemma post_after_quiet:
  assumes "\<forall>x\<in>set xs. \<not> is_post x" and "xs @ ys = before @ ev # after" and "is_post ev"
  shows "\<exists>mid. before = xs @ mid \<and> ys = mid @ ev # after"
  using assms
proof (induction xs arbitrary: before)
  case Nil
  then show ?case by simp
next
  case (Cons x xs)
  show ?case
  proof (cases before)
    case Nil
    with Cons.prems show ?thesis by auto
  next
    case (Cons b bs)
    with Cons.prems have "x = b" "xs @ ys = bs @ ev # after" by auto
    with Cons.IH[of bs] Cons.prems obtain mid where "bs = xs @ mid" "ys = mid @ ev # after"
      by auto
    with \<open>x = b\<close> Cons show ?thesis by simp
  qed
qed

lemma command_run:
  "command vin commandPath params w =
     (case ensureAwake vin w of
        (Inl e, w') \<Rightarrow> (Inl e, w')
      | (Inr u, w') \<Rightarrow> tessieRequest POST commandPath params None w')"
  by (auto simp: command_def post_def split: prod.splits sum.splits)

text \<open>
  Claim C1. Every vehicle command goes through \<open>command\<close>. In the events of a run of
  \<open>command\<close>, for any command path and parameters: when a \<open>POST\<close> was sent at all, the
  events before the first \<open>POST\<close> are exactly one status check; and every \<open>POST\<close> of the
  run is either the command's own request, which then is the last event and comes right
  after a status check that reported the vehicle awake (the first check, or the last one
  of the poll loop), or the wake command, sent right after the first status check when
  that one did not report the vehicle awake.
\<close>

theorem command_wake_gate:
  "\<exists>evs. trace (snd (command vin commandPath params w)) = trace w @ evs \<and>
     (list_ex is_post evs \<longrightarrow>
        (\<exists>check. is_status_check vin check \<and> takeWhile (\<lambda>ev. \<not> is_post ev) evs = [check])) \<and>
     (\<forall>before ev after. evs = before @ ev # after \<and> is_post ev \<longrightarrow>
        before \<noteq> [] \<and> reports_awake vin (last before) \<and> after = [] \<and>
        (\<exists>token out. ev = Fetch (build_request POST commandPath params None token) out)
        \<or>
        (\<exists>token check out. before = [check] \<and> is_status_check vin check \<and>
           \<not> reports_awake vin check \<and> ev = Fetch (wake_request token vin) out))"
proof (cases "getToken w")
  case (Inl e)
  then have "snd (command vin commandPath params w) = w"
    by (simp add: command_run ensureAwake_no_token)
  then show ?thesis by (intro exI[of _ "[]"]) simp
next
  case (Inr token)
  obtain r w1 where gate: "ensureAwake vin w = (r, w1)" by (cases "ensureAwake vin w")
  let ?c = "Fetch (status_request token vin) (snd (network w 0))"
  let ?k = "Fetch (wake_request token vin) (snd (network w 1))"
  let ?cmd = "Fetch (build_request POST commandPath params None token) (snd (network w1 0))"
  let ?tail = "case r of Inl e \<Rightarrow> [] | Inr u \<Rightarrow> [?cmd]"
  from ensureAwake_run[OF Inr gate] have tok1: "getToken w1 = Inr token" by blast
  have final: "trace (snd (command vin commandPath params w)) = trace w1 @ ?tail"
    using gate tok1 by (cases r) (simp_all add: command_run tessieRequest_token)
  from ensureAwake_run[OF Inr gate] consider
      (direct) "trace w1 = trace w @ [?c]" "r = Inr () \<longleftrightarrow> answers_awake (snd (network w 0))"
    | (woken) outs where "answers_not_awake (snd (network w 0))"
        "trace w1 = trace w @ ?c # ?k # poll_events token vin outs"
        "r = Inr () \<longrightarrow> outs \<noteq> [] \<and> answers_awake (last outs)"
    by blast
  then show ?thesis
  proof cases
    case direct
    let ?evs = "?c # ?tail"
    have tr: "trace (snd (command vin commandPath params w)) = trace w @ ?evs"
      using final direct(1) by simp
    have first: "list_ex is_post ?evs \<longrightarrow>
        (\<exists>check. is_status_check vin check \<and> takeWhile (\<lambda>ev. \<not> is_post ev) ?evs = [check])"
      by (cases r) auto
    have posts: "before \<noteq> [] \<and> reports_awake vin (last before) \<and> after = [] \<and>
        (\<exists>token out. ev = Fetch (build_request POST commandPath params None token) out)"
      if "?evs = before @ ev # after" "is_post ev" for before ev after
    proof -
      from post_after_quiet[of "[?c]" ?tail before ev after] that
      obtain mid where mid: "before = [?c] @ mid" "?tail = mid @ ev # after" by auto
      show ?thesis
      proof (cases r)
        case (Inl e)
        with mid show ?thesis by simp
      next
        case (Inr u)
        with mid have "mid = []" "ev = ?cmd" "after = []"
          by (auto simp: Cons_eq_append_conv)
        moreover from Inr direct(2) have "answers_awake (snd (network w 0))" by simp
        ultimately show ?thesis using mid(1) by auto
      qed
    qed
    from tr first posts show ?thesis by blast
  next
    case woken
    let ?P = "poll_events token vin outs"
    let ?evs = "?c # ?k # ?P @ ?tail"
    have tr: "trace (snd (command vin commandPath params w)) = trace w @ ?evs"
      using final woken(2) by simp
    have first: "list_ex is_post ?evs \<longrightarrow>
        (\<exists>check. is_status_check vin check \<and> takeWhile (\<lambda>ev. \<not> is_post ev) ?evs = [check])"
      by auto
    have quiet: "\<forall>x\<in>set ?P. \<not> is_post x" by (auto dest: poll_events_no_post)
    have posts: "before \<noteq> [] \<and> reports_awake vin (last before) \<and> after = [] \<and>
          (\<exists>token out. ev = Fetch (build_request POST commandPath params None token) out)
        \<or>
        (\<exists>token check out. before = [check] \<and> is_status_check vin check \<and>
           \<not> reports_awake vin check \<and> ev = Fetch (wake_request token vin) out)"
      if "?evs = before @ ev # after" "is_post ev" for before ev after
    proof -
      from post_after_quiet[of "[?c]" "?k # ?P @ ?tail" before ev after] that
      obtain mid where mid: "before = [?c] @ mid" "?k # ?P @ ?tail = mid @ ev # after" by auto
      show ?thesis
      proof (cases mid)
        case Nil
        with mid have "before = [?c]" "ev = ?k" by auto
        moreover have "\<not> reports_awake vin ?c"
          using woken(1) by (simp add: not_awake_not_awake)
        ultimately show ?thesis by auto
      next
        case (Cons m rest)
        with mid have rest: "?P @ ?tail = rest @ ev # after" "mid = ?k # rest" by auto
        from post_after_quiet[OF quiet rest(1) that(2)]
        obtain mid2 where mid2: "rest = ?P @ mid2" "?tail = mid2 @ ev # after" by blast
        show ?thesis
        proof (cases r)
          case (Inl e)
          with mid2 show ?thesis by simp
        next
          case (Inr u)
          with mid2 have "mid2 = []" "ev = ?cmd" "after = []"
            by (auto simp: Cons_eq_append_conv)
          moreover from Inr woken(3) have "outs \<noteq> []" "answers_awake (last outs)" by auto
          ultimately have "before = ?c # ?k # ?P" "reports_awake vin (last before)"
            using mid(1) rest(2) mid2(1) by (auto simp: poll_events_last)
          with \<open>ev = ?cmd\<close> \<open>after = []\<close> show ?thesis by auto
        qed
      qed
    qed
    from tr first posts show ?thesis by blast
  qed
qed

theorem command_wake_gate_witness:
  "trace (snd (command example_vin ''/5YJ3E1EA7KF317000/command/lock'' None waking_world)) =
     [Fetch (status_request ''secret'' example_vin) says_asleep,
      Fetch (wake_request ''secret'' example_vin) accepted,
      Sleep 3000,
      Fetch (status_request ''secret'' example_vin) says_awake,
      Fetch (build_request POST ''/5YJ3E1EA7KF317000/command/lock'' None None ''secret'') accepted] \<and>
   (\<exists>evs check.
      trace (snd (command example_vin ''/5YJ3E1EA7KF317000/command/lock'' None waking_world)) =
        trace waking_world @ evs \<and>
      list_ex is_post evs \<and> is_status_check example_vin check \<and>
      takeWhile (\<lambda>ev. \<not> is_post ev) evs = [check]) \<and>
   (\<exists>before ev.
      trace (snd (command example_vin ''/5YJ3E1EA7KF317000/command/lock'' None waking_world)) =
        before @ [ev] \<and>
      is_post ev \<and> length before = 4 \<and> reports_awake example_vin (last before))"
proof -
  let ?run = "snd (command example_vin ''/5YJ3E1EA7KF317000/command/lock'' None waking_world)"
  let ?before = "[Fetch (status_request ''secret'' example_vin) says_asleep,
      Fetch (wake_request ''secret'' example_vin) accepted,
      Sleep 3000,
      Fetch (status_request ''secret'' example_vin) says_awake]"
  let ?ev = "Fetch (build_request POST ''/5YJ3E1EA7KF317000/command/lock'' None None ''secret'') accepted"
  have tr: "trace ?run = ?before @ [?ev]"
    by (simp add: run_defs example_worlds waking_world_def status_request_def wake_request_def)
  from command_wake_gate [of example_vin "''/5YJ3E1EA7KF317000/command/lock''" None waking_world]
  obtain evs where evs: "trace ?run = trace waking_world @ evs"
      "list_ex is_post evs \<longrightarrow>
        (\<exists>check. is_status_check example_vin check \<and> takeWhile (\<lambda>ev. \<not> is_post ev) evs = [check])"
      "\<forall>before ev after. evs = before @ ev # after \<and> is_post ev \<longrightarrow>
        before \<noteq> [] \<and> reports_awake example_vin (last before) \<and> after = [] \<and>
        (\<exists>token out. ev = Fetch (build_request POST ''/5YJ3E1EA7KF317000/command/lock'' None None token) out)
        \<or>
        (\<exists>token check out. before = [check] \<and> is_status_check example_vin check \<and>
           \<not> reports_awake example_vin check \<and> ev = Fetch (wake_request token example_vin) out)"
    by blast
  have "trace waking_world = []" by (simp add: example_worlds waking_world_def)
  with evs(1) tr have split: "evs = ?before @ ?ev # []" by simp
  have post: "is_post ?ev" by simp
  from split post have "list_ex is_post evs" by simp
  with evs(2) obtain check where check: "is_status_check example_vin check"
      "takeWhile (\<lambda>ev. \<not> is_post ev) evs = [check]"
    by blast
  from evs(3)[rule_format, of ?before ?ev "[]"] split post
  have "reports_awake example_vin (last ?before)"
    by simp
  with tr post have "\<exists>before ev. trace ?run = before @ [ev] \<and> is_post ev \<and> length before = 4 \<and>
      reports_awake example_vin (last before)"
    by (intro exI[of _ ?before] exI[of _ ?ev]) simp
  moreover from evs(1) \<open>list_ex is_post evs\<close> check
  have "\<exists>evs check. trace ?run = trace waking_world @ evs \<and> list_ex is_post evs \<and>
      is_status_check example_vin check \<and> takeWhile (\<lambda>ev. \<not> is_post ev) evs = [check]"
    by blast
  ultimately show ?thesis using tr by simp
qed

text \<open>The two tools that edit Tessie's own records are not vehicle commands: they post
  directly, and a run of either adds its one \<open>POST\<close> or nothing.\<close>

lemma record_edits_post_directly:
  assumes "VinSchema val w = Inr vin" and "getToken w = Inr token"
  shows "trace (snd (set_drive_tag val drives tag w)) =
           trace w @ [Fetch (build_request POST (''/'' @ vin @ ''/drives/set_tag'') None
                               (Some (JObj [(''drives'', JStr drives), (''tag'', JStr tag)])) token)
                        (snd (network w 0))]"
    and "trace (snd (set_charge_cost val charge_id cost w)) =
           trace w @ [Fetch (build_request POST (''/'' @ vin @ ''/charges/'' @ charge_id @ ''/set_cost'')
                               (Some [(''cost'', Some (PNum cost))]) None token)
                        (snd (network w 0))]"
  using assms
  by (simp_all add: set_drive_tag_def set_charge_cost_def vehicle_tool_def post_def
      tessieRequest_token)

end
